theory Spec2Isabelle
  imports Main "HOL-Library.AList"
begin

section \<open>Values, exceptions and configuration\<close>

text \<open>
  The values a claims mapping can hold are JSON values; Python's \<open>None\<close> is \<open>JNull\<close>.
  A Python \<open>dict\<close> is an association list in insertion order.
\<close>

datatype json =
    JNull
  | JBool bool
  | JNum int
  | JStr string
  | JArr "json list"
  | JObj "(string \<times> json) list"

type_synonym claims = "(string \<times> json) list"

text \<open>\<open>d.get(k)\<close>: the value stored under \<open>k\<close>, and \<open>None\<close> when the key is absent.\<close>

definition py_get :: "claims \<Rightarrow> string \<Rightarrow> json" where
  "py_get d k = (case map_of d k of None \<Rightarrow> JNull | Some v \<Rightarrow> v)"

text \<open>
  The exceptions that leave the handlers: FastAPI's \<open>HTTPException\<close> with its status code,
  detail and headers; jose's \<open>JWTError\<close>, the one kind of exception of \<open>jwt.decode\<close> that
  \<open>get_current_user\<close> catches; the failures of \<open>jwt.decode\<close> that are not of that kind,
  \<open>JWKError\<close> for a key that cannot be used and \<open>TypeError\<close> for an expiry claim that is
  not a number; and the failure of \<open>jwt.encode\<close>. No handler catches the last three.
\<close>

datatype exn =
    HTTPException (status_code: nat) (detail: string) (headers: "(string \<times> string) list")
  | JWTError
  | JWKError
  | TypeError
  | SigningError

text \<open>
  \<open>SECRET_KEY\<close> and \<open>ALGORITHM\<close> are read with \<open>os.environ.get\<close>, which gives \<open>None\<close>
  for a variable that is not set.
\<close>

record config =
  SECRET_KEY :: "string option"
  ALGORITHM :: "string option"

text \<open>
  The two cryptographic primitives of the libraries are parameters of the development:
  \<open>kdf params password\<close> is the digest of a password under the parameters (salt, cost) of
  a hashed string, and \<open>signer alg key payload\<close> is the signature of a payload, or
  \<open>None\<close> when the algorithm is not supported or the key is not valid for it.
\<close>

record crypto =
  kdf :: "string \<Rightarrow> string \<Rightarrow> string"
  signer :: "string \<Rightarrow> string \<Rightarrow> claims \<Rightarrow> string option"

section \<open>Credential hasher\<close>

text \<open>
  Modelled from the spec: \<open>password_context\<close> is a passlib \<open>CryptContext\<close>, whose code is
  not part of the source. Section 4.1 of the specification: \<open>hash\<close> produces a salted hash
  of any string, and the hashed string embeds the parameters it was produced with;
  \<open>verify\<close> is true iff the password, hashed with the parameters embedded in the hashed
  string, matches. The salt is drawn by the library and is an argument here.
\<close>

record hashed_string =
  hs_params :: string
  hs_digest :: string

definition password_context_hash :: "crypto \<Rightarrow> string \<Rightarrow> string \<Rightarrow> hashed_string" where
  "password_context_hash L params secret =
     \<lparr>hs_params = params, hs_digest = kdf L params secret\<rparr>"

definition password_context_verify :: "crypto \<Rightarrow> string \<Rightarrow> hashed_string \<Rightarrow> bool" where
  "password_context_verify L secret hash = (kdf L (hs_params hash) secret = hs_digest hash)"

definition generate_hash :: "crypto \<Rightarrow> string \<Rightarrow> string \<Rightarrow> hashed_string" where
  "generate_hash L params password = password_context_hash L params password"

definition verify_password :: "crypto \<Rightarrow> hashed_string \<Rightarrow> string \<Rightarrow> bool" where
  "verify_password L hashed_pass plain_text = password_context_verify L plain_text hashed_pass"

section \<open>Signup\<close>

text \<open>
  \<open>models.Users\<close> and \<open>schemas.CreateUser\<close> are declared outside the source file; they
  are records with the fields the source reads and writes. The user store is the list of
  its rows, in the order in which a query returns them.
\<close>

record Users =
  id_col :: int
  username :: string
  passwordHash :: hashed_string
  role :: string

record CreateUser =
  cu_username :: string
  cu_password :: string
  cu_confirmation :: string
  cu_role :: string

type_synonym db = "Users list"

text \<open>
  \<open>create_user\<close> returns what the handler returns or raises, together with the user store
  after the call. The primary key of the new row is assigned by the storage layer and read
  back by \<open>db.refresh\<close>; it is the argument \<open>new_id\<close>.
\<close>

definition create_user ::
  "crypto \<Rightarrow> string \<Rightarrow> int \<Rightarrow> CreateUser \<Rightarrow> db \<Rightarrow> (exn + nat \<times> Users) \<times> db" where
  "create_user L params new_id request db =
     (if cu_password request = cu_confirmation request then
        let hash_pass = generate_hash L params (cu_password request);
            db_user = \<lparr>id_col = new_id, username = cu_username request,
                       passwordHash = hash_pass, role = cu_role request\<rparr>
        in (Inr (200, db_user), db @ [db_user])
      else (Inl (HTTPException 401 ''Password Don't Match'' []), db))"

section \<open>Token codec\<close>

text \<open>
  Modelled from the spec: \<open>jwt.encode\<close> and \<open>jwt.decode\<close> belong to the jose library,
  whose code is not part of the source. Section 4.2 of the specification: \<open>encode\<close> signs
  and serializes the claims and fails if the secret or the algorithm is unset or invalid;
  \<open>decode\<close> verifies signature and expiry and fails with one kind of error, \<open>JWTError\<close>,
  on signature mismatch, malformed structure, or expiry in the past; a token whose header
  names an algorithm that is not among the accepted ones fails in the same way. Sections 6
  and 7: with the secret absent verification fails, and this failure is none of the
  \<open>InvalidToken\<close> kind: it propagates unhandled. An expiry claim that is not a number is
  none of the three cases either, and its failure is no \<open>JWTError\<close>. A token string is
  either malformed or carries the algorithm of its header, its payload and its signature;
  the serialization itself is not modelled. The checks run in the order structure,
  algorithm, key, signature, expiry. Time is counted in seconds. A payload without an
  expiry claim has no expiry to verify.
\<close>

datatype token =
    Malformed string
  | Jws (jws_alg: string) (jws_payload: claims) (jws_sig: string)

definition jwt_encode :: "crypto \<Rightarrow> claims \<Rightarrow> string option \<Rightarrow> string option \<Rightarrow> exn + token" where
  "jwt_encode L payload key algorithm =
     (case key of
        None \<Rightarrow> Inl SigningError
      | Some k \<Rightarrow>
          (case algorithm of
             None \<Rightarrow> Inl SigningError
           | Some a \<Rightarrow>
               (case signer L a k payload of
                  None \<Rightarrow> Inl SigningError
                | Some sg \<Rightarrow> Inr (Jws a payload sg))))"

definition jwt_decode ::
  "crypto \<Rightarrow> int \<Rightarrow> token \<Rightarrow> string option \<Rightarrow> string option list \<Rightarrow> exn + claims" where
  "jwt_decode L now tok key algorithms =
     (case tok of
        Malformed s \<Rightarrow> Inl JWTError
      | Jws a payload sg \<Rightarrow>
          if Some a \<notin> set algorithms then Inl JWTError
          else
            (case key of
               None \<Rightarrow> Inl JWKError
             | Some k \<Rightarrow>
                 if signer L a k payload \<noteq> Some sg then Inl JWTError
                 else
                   (case map_of payload ''exp'' of
                      None \<Rightarrow> Inr payload
                    | Some (JNum e) \<Rightarrow> if e < now then Inl JWTError else Inr payload
                    | Some _ \<Rightarrow> Inl TypeError)))"

text \<open>\<open>timedelta(minutes=m)\<close>, in seconds.\<close>

definition timedelta_minutes :: "int \<Rightarrow> int" where
  "timedelta_minutes m = m * 60"

text \<open>
  \<open>create_access_token\<close>: the copy of \<open>data\<close> gets the key \<open>exp\<close>, set to the current
  time (\<open>datetime.utcnow()\<close>, the argument \<open>now\<close>) plus 60 minutes, and is encoded.
\<close>

definition create_access_token :: "crypto \<Rightarrow> config \<Rightarrow> int \<Rightarrow> claims \<Rightarrow> exn + token" where
  "create_access_token L C now data =
     (let to_encode = data;
          expire = now + timedelta_minutes 60;
          to_encode = AList.update ''exp'' (JNum expire) to_encode
      in jwt_encode L to_encode (SECRET_KEY C) (ALGORITHM C))"

section \<open>Current-user resolver\<close>

definition credentials_exception :: exn where
  "credentials_exception =
     HTTPException 401 ''Could not validate credentials'' [(''WWW-Authenticate'', ''Bearer'')]"

text \<open>
  \<open>schemas.TokenData\<close> is declared outside the source file; it is a record with the one
  field the source sets. The value built from it is not used afterwards.
\<close>

record TokenData =
  td_username :: json

text \<open>
  \<open>get_current_user_traced\<close> is \<open>get_current_user\<close> together with the line of the source
  at which the call ends: the \<open>raise\<close> of line 54, 57 or 64, the \<open>return\<close> of line 65, or
  line 51 for an exception of \<open>jwt.decode\<close> that \<open>except JWTError\<close> does not catch.
\<close>

definition get_current_user_traced ::
  "crypto \<Rightarrow> config \<Rightarrow> int \<Rightarrow> token \<Rightarrow> nat \<times> (exn + claims)" where
  "get_current_user_traced L C now token =
     (case jwt_decode L now token (SECRET_KEY C) [ALGORITHM C] of
        Inl JWTError \<Rightarrow> (57, Inl credentials_exception)
      | Inl e \<Rightarrow> (51, Inl e)
      | Inr payload \<Rightarrow>
          (let username = py_get payload ''username'' in
           if username = JNull then (54, Inl credentials_exception)
           else
             let token_data = \<lparr>td_username = username\<rparr>;
                 user = Some [(''username'', username),
                              (''id'', py_get payload ''id''),
                              (''role'', py_get payload ''role'')]
             in (case user of
                   None \<Rightarrow> (64, Inl credentials_exception)
                 | Some u \<Rightarrow> (65, Inr u))))"

definition get_current_user :: "crypto \<Rightarrow> config \<Rightarrow> int \<Rightarrow> token \<Rightarrow> exn + claims" where
  "get_current_user L C now token = snd (get_current_user_traced L C now token)"

section \<open>Login\<close>

text \<open>
  The form of the request and the response body \<open>schemas.Token\<close>, with the fields the
  source reads and writes. A handler that returns answers with the status code of its
  route decorator, 200.
\<close>

record OAuth2PasswordRequestForm =
  form_username :: string
  form_password :: string

record Token =
  access_token :: token
  token_type :: string

text \<open>\<open>db.query(models.Users).filter(models.Users.username == name).first()\<close>\<close>

definition query_first :: "db \<Rightarrow> string \<Rightarrow> Users option" where
  "query_first db name = find (\<lambda>u. username u = name) db"

text \<open>The dictionary that \<open>login_token\<close> passes to \<open>create_access_token\<close> (line 90).\<close>

definition user_claims :: "Users \<Rightarrow> claims" where
  "user_claims user =
     [(''username'', JStr (username user)), (''id'', JNum (id_col user)),
      (''role'', JStr (role user))]"

definition login_token ::
  "crypto \<Rightarrow> config \<Rightarrow> int \<Rightarrow> OAuth2PasswordRequestForm \<Rightarrow> db \<Rightarrow> exn + nat \<times> Token" where
  "login_token L C now request db =
     (case query_first db (form_username request) of
        None \<Rightarrow> Inl (HTTPException 401 ''Invalid username or password'' [])
      | Some user \<Rightarrow>
          if verify_password L (passwordHash user) (form_password request) then
            (case create_access_token L C now (user_claims user) of
               Inl e \<Rightarrow> Inl e
             | Inr token \<Rightarrow> Inr (200, \<lparr>access_token = token, token_type = ''bearer''\<rparr>))
          else Inl (HTTPException 401 ''Invalid username or password'' []))"

section \<open>A concrete instance\<close>

text \<open>
  A toy instance of the primitives and a small user store, on which the theorems below
  are exercised.
\<close>

definition toy_crypto :: crypto where
  "toy_crypto =
     \<lparr>kdf = (\<lambda>params secret. params @ rev secret),
      signer = (\<lambda>a k payload. if a = ''HS256'' then Some (k @ concat (map fst payload)) else None)\<rparr>"

definition toy_config :: config where
  "toy_config = \<lparr>SECRET_KEY = Some ''k'', ALGORITHM = Some ''HS256''\<rparr>"

definition unset_config :: config where
  "unset_config = \<lparr>SECRET_KEY = None, ALGORITHM = Some ''HS256''\<rparr>"

definition no_algorithm_config :: config where
  "no_algorithm_config = \<lparr>SECRET_KEY = Some ''k'', ALGORITHM = None\<rparr>"

definition alice :: Users where
  "alice = \<lparr>id_col = 1, username = ''alice'',
            passwordHash = \<lparr>hs_params = ''s'', hs_digest = ''swp''\<rparr>, role = ''admin''\<rparr>"

definition alice_form :: OAuth2PasswordRequestForm where
  "alice_form = \<lparr>form_username = ''alice'', form_password = ''pw''\<rparr>"

definition bob_form :: OAuth2PasswordRequestForm where
  "bob_form = \<lparr>form_username = ''bob'', form_password = ''pw''\<rparr>"

definition alice_wrong_form :: OAuth2PasswordRequestForm where
  "alice_wrong_form = \<lparr>form_username = ''alice'', form_password = ''pW''\<rparr>"

definition alice_payload :: claims where
  "alice_payload =
     [(''username'', JStr ''alice''), (''id'', JNum 1), (''role'', JStr ''admin''),
      (''exp'', JNum 3600)]"

definition alice_token :: token where
  "alice_token = Jws ''HS256'' alice_payload ''kusernameidroleexp''"

definition carol_payload :: claims where
  "carol_payload = [(''username'', JStr ''carol''), (''exp'', JNum 3600)]"

definition carol_token :: token where
  "carol_token = Jws ''HS256'' carol_payload ''kusernameexp''"

definition nameless_token :: token where
  "nameless_token = Jws ''HS256'' [(''id'', JNum 7), (''exp'', JNum 3600)] ''kidexp''"

definition forged_token :: token where
  "forged_token = Jws ''HS256'' alice_payload ''forged''"

definition signup_mismatch :: CreateUser where
  "signup_mismatch = \<lparr>cu_username = ''dave'', cu_password = ''pw'', cu_confirmation = ''pW'',
                      cu_role = ''superuser''\<rparr>"

section \<open>Auxiliary facts\<close>

lemmas toy_defs = toy_crypto_def toy_config_def unset_config_def no_algorithm_config_def alice_def alice_form_def
  bob_form_def alice_wrong_form_def alice_payload_def alice_token_def carol_payload_def
  carol_token_def nameless_token_def forged_token_def signup_mismatch_def

lemma map_of_update_other: "k \<noteq> k' \<Longrightarrow> map_of (AList.update k' v d) k = map_of d k"
  by (simp add: update_conv')

lemma py_get_update_other: "k \<noteq> k' \<Longrightarrow> py_get (AList.update k' v d) k = py_get d k"
  by (simp add: py_get_def update_conv')

lemma create_access_token_Inr:
  "create_access_token L C now data = Inr tok \<longleftrightarrow>
     (\<exists>k a sg. SECRET_KEY C = Some k \<and> ALGORITHM C = Some a \<and>
        signer L a k (AList.update ''exp'' (JNum (now + 3600)) data) = Some sg \<and>
        tok = Jws a (AList.update ''exp'' (JNum (now + 3600)) data) sg)"
  by (auto simp: create_access_token_def jwt_encode_def timedelta_minutes_def Let_def
      split: option.splits)

lemma jwt_decode_signed:
  assumes "signer L a k payload = Some sg" and "map_of payload ''exp'' = Some (JNum e)"
  shows "jwt_decode L now (Jws a payload sg) (Some k) [Some a] =
           (if e < now then Inl JWTError else Inr payload)"
  using assms by (simp add: jwt_decode_def)


lemma jwt_decode_algorithm:
  "Some a \<notin> set algs \<Longrightarrow> jwt_decode L now (Jws a payload sg) key algs = Inl JWTError"
  by (simp add: jwt_decode_def)




lemma get_current_user_traced_cases:
  "get_current_user_traced L C now token =
     (case jwt_decode L now token (SECRET_KEY C) [ALGORITHM C] of
        Inl e \<Rightarrow> if e = JWTError then (57, Inl credentials_exception) else (51, Inl e)
      | Inr payload \<Rightarrow>
          if py_get payload ''username'' = JNull then (54, Inl credentials_exception)
          else (65, Inr [(''username'', py_get payload ''username''),
                         (''id'', py_get payload ''id''),
                         (''role'', py_get payload ''role'')]))"
  by (simp add: get_current_user_traced_def Let_def split: sum.splits exn.splits)

lemma get_current_user_cases:
  "get_current_user L C now token =
     (case jwt_decode L now token (SECRET_KEY C) [ALGORITHM C] of
        Inl e \<Rightarrow> if e = JWTError then Inl credentials_exception else Inl e
      | Inr payload \<Rightarrow>
          if py_get payload ''username'' = JNull then Inl credentials_exception
          else Inr [(''username'', py_get payload ''username''),
                    (''id'', py_get payload ''id''),
                    (''role'', py_get payload ''role'')])"
  by (simp add: get_current_user_def get_current_user_traced_cases split: sum.splits)





text \<open>The toy instance, evaluated.\<close>

lemma create_alice_token:
  "create_access_token toy_crypto toy_config 0 (user_claims alice) = Inr alice_token"
  by (simp add: toy_defs create_access_token_def jwt_encode_def timedelta_minutes_def
      user_claims_def)


lemma decode_carol_token:
  "jwt_decode toy_crypto 100 carol_token (SECRET_KEY toy_config) [ALGORITHM toy_config] =
     Inr carol_payload"
  by (simp add: toy_defs jwt_decode_def)


lemma query_alice: "query_first [alice] (form_username alice_form) = Some alice"
  by (simp add: query_first_def toy_defs)

lemma verify_alice:
  "verify_password toy_crypto (passwordHash alice) (form_password alice_form)"
  by (simp add: verify_password_def password_context_verify_def toy_defs)

section \<open>Login failures\<close>

text \<open>
  C1: a login request for which no user with the requested username exists, or for which
  the stored \<open>passwordHash\<close> does not verify against the supplied password, fails with
  HTTP 401 and the detail "Invalid username or password"; the exception is the same value
  in both cases.
\<close>

theorem login_token_invalid:
  assumes "query_first db (form_username request) = None \<or>
           (\<exists>user. query_first db (form_username request) = Some user \<and>
                   \<not> verify_password L (passwordHash user) (form_password request))"
  shows "login_token L C now request db =
           Inl (HTTPException 401 ''Invalid username or password'' [])"
  using assms by (auto simp: login_token_def)

theorem login_token_invalid_witness:
  "query_first [alice] (form_username bob_form) = None \<and>
   login_token toy_crypto toy_config 0 bob_form [alice] =
     Inl (HTTPException 401 ''Invalid username or password'' []) \<and>
   query_first [alice] (form_username alice_wrong_form) = Some alice \<and>
   \<not> verify_password toy_crypto (passwordHash alice) (form_password alice_wrong_form) \<and>
   login_token toy_crypto toy_config 0 alice_wrong_form [alice] =
     Inl (HTTPException 401 ''Invalid username or password'' [])"
proof -
  have a: "query_first [alice] (form_username bob_form) = None"
    by (simp add: query_first_def toy_defs)
  have b: "query_first [alice] (form_username alice_wrong_form) = Some alice"
    by (simp add: query_first_def toy_defs)
  have c: "\<not> verify_password toy_crypto (passwordHash alice) (form_password alice_wrong_form)"
    by (simp add: verify_password_def password_context_verify_def toy_defs)
  from a have 1: "login_token toy_crypto toy_config 0 bob_form [alice] =
     Inl (HTTPException 401 ''Invalid username or password'' [])"
    by (intro login_token_invalid) simp
  from b c have 2: "login_token toy_crypto toy_config 0 alice_wrong_form [alice] =
     Inl (HTTPException 401 ''Invalid username or password'' [])"
    by (intro login_token_invalid) simp
  from a b c 1 2 show ?thesis by simp
qed

section \<open>Token round trip and expiry\<close>

text \<open>
  C2: for every claims mapping \<open>data\<close>, the token produced by \<open>create_access_token\<close>,
  decoded no later than its expiry, gives claims in which \<open>username\<close>, \<open>id\<close> and \<open>role\<close>
  are those of \<open>data\<close>; and when \<open>data\<close> holds a username, the current-user resolver
  returns exactly these three claims.
\<close>

theorem decode_create_access_token:
  assumes "create_access_token L C now data = Inr tok" and "now' \<le> now + 60 * 60"
  shows "(\<exists>payload. jwt_decode L now' tok (SECRET_KEY C) [ALGORITHM C] = Inr payload \<and>
            map_of payload ''username'' = map_of data ''username'' \<and>
            map_of payload ''id'' = map_of data ''id'' \<and>
            map_of payload ''role'' = map_of data ''role'') \<and>
         (py_get data ''username'' \<noteq> JNull \<longrightarrow>
            get_current_user L C now' tok =
              Inr [(''username'', py_get data ''username''), (''id'', py_get data ''id''),
                   (''role'', py_get data ''role'')])"
proof -
  let ?p = "AList.update ''exp'' (JNum (now + 3600)) data"
  from assms(1) obtain k a sg where c: "SECRET_KEY C = Some k" "ALGORITHM C = Some a"
    and s: "signer L a k ?p = Some sg" and t: "tok = Jws a ?p sg"
    unfolding create_access_token_Inr by blast
  have e: "map_of ?p ''exp'' = Some (JNum (now + 3600))" by (simp add: update_conv')
  have d: "jwt_decode L now' tok (SECRET_KEY C) [ALGORITHM C] = Inr ?p"
    using jwt_decode_signed [OF s e, of now'] assms(2) c t by simp
  have m: "map_of ?p ''username'' = map_of data ''username''"
    "map_of ?p ''id'' = map_of data ''id''" "map_of ?p ''role'' = map_of data ''role''"
    by (simp_all add: map_of_update_other)
  have g: "py_get ?p ''username'' = py_get data ''username''"
    "py_get ?p ''id'' = py_get data ''id''" "py_get ?p ''role'' = py_get data ''role''"
    by (simp_all add: py_get_update_other)
  have "py_get data ''username'' \<noteq> JNull \<Longrightarrow>
        get_current_user L C now' tok =
          Inr [(''username'', py_get data ''username''), (''id'', py_get data ''id''),
               (''role'', py_get data ''role'')]"
    by (simp add: get_current_user_cases d g)
  with d m show ?thesis by blast
qed

theorem decode_create_access_token_witness:
  "create_access_token toy_crypto toy_config 0 (user_claims alice) = Inr alice_token \<and>
   (100::int) \<le> 0 + 60 * 60 \<and>
   py_get (user_claims alice) ''username'' \<noteq> JNull \<and>
   (\<exists>payload. jwt_decode toy_crypto 100 alice_token (SECRET_KEY toy_config)
                [ALGORITHM toy_config] = Inr payload \<and>
      map_of payload ''username'' = map_of (user_claims alice) ''username'' \<and>
      map_of payload ''id'' = map_of (user_claims alice) ''id'' \<and>
      map_of payload ''role'' = map_of (user_claims alice) ''role'') \<and>
   get_current_user toy_crypto toy_config 100 alice_token =
     Inr [(''username'', JStr ''alice''), (''id'', JNum 1), (''role'', JStr ''admin'')]"
proof -
  have h: "(100::int) \<le> 0 + 60 * 60" by simp
  have u: "py_get (user_claims alice) ''username'' \<noteq> JNull"
    "py_get (user_claims alice) ''username'' = JStr ''alice''"
    "py_get (user_claims alice) ''id'' = JNum 1"
    "py_get (user_claims alice) ''role'' = JStr ''admin''"
    by (simp_all add: py_get_def user_claims_def alice_def)
  show ?thesis
    using create_alice_token h u decode_create_access_token [OF create_alice_token h]
    by simp
qed

text \<open>
  C6: every access token issued by \<open>create_access_token\<close> carries the claim \<open>exp\<close> set to
  60 minutes (3600 seconds) after the time of issue, and decoding it later than that
  fails with \<open>JWTError\<close>, which the current-user resolver turns into its HTTP 401.
\<close>

theorem create_access_token_expiry:
  assumes "create_access_token L C now data = Inr tok"
  shows "(\<exists>a payload sg. tok = Jws a payload sg \<and>
            map_of payload ''exp'' = Some (JNum (now + 60 * 60))) \<and>
         (now + 60 * 60 < now' \<longrightarrow>
            jwt_decode L now' tok (SECRET_KEY C) [ALGORITHM C] = Inl JWTError \<and>
            get_current_user L C now' tok =
              Inl (HTTPException 401 ''Could not validate credentials''
                     [(''WWW-Authenticate'', ''Bearer'')]))"
proof -
  let ?p = "AList.update ''exp'' (JNum (now + 3600)) data"
  from assms obtain k a sg where c: "SECRET_KEY C = Some k" "ALGORITHM C = Some a"
    and s: "signer L a k ?p = Some sg" and t: "tok = Jws a ?p sg"
    unfolding create_access_token_Inr by blast
  have e: "map_of ?p ''exp'' = Some (JNum (now + 3600))" by (simp add: update_conv')
  have d: "now + 3600 < now' \<Longrightarrow>
           jwt_decode L now' tok (SECRET_KEY C) [ALGORITHM C] = Inl JWTError"
    using jwt_decode_signed [OF s e, of now'] c t by simp
  show ?thesis using t e d
    by (auto simp: get_current_user_cases credentials_exception_def)
qed

theorem create_access_token_expiry_witness:
  "create_access_token toy_crypto toy_config 0 (user_claims alice) = Inr alice_token \<and>
   (0::int) + 60 * 60 < 3601 \<and>
   (\<exists>a payload sg. alice_token = Jws a payload sg \<and>
      map_of payload ''exp'' = Some (JNum (0 + 60 * 60))) \<and>
   jwt_decode toy_crypto 3601 alice_token (SECRET_KEY toy_config) [ALGORITHM toy_config] =
     Inl JWTError \<and>
   get_current_user toy_crypto toy_config 3601 alice_token =
     Inl (HTTPException 401 ''Could not validate credentials''
            [(''WWW-Authenticate'', ''Bearer'')])"
proof -
  have h: "(0::int) + 60 * 60 < 3601" by simp
  show ?thesis
    using create_alice_token h
      create_access_token_expiry [OF create_alice_token, of 3601]
    by simp
qed

section \<open>Properties of the credential hasher\<close>

text \<open>
  C5: for every password string \<open>p\<close>, \<open>verify_password(generate_hash(p), p)\<close> is true,
  whatever parameters (salt) the hasher draws.
\<close>

theorem verify_generate_hash:
  "verify_password L (generate_hash L params p) p"
  by (simp add: verify_password_def generate_hash_def
      password_context_verify_def password_context_hash_def)

section \<open>Signup\<close>

text \<open>
  C3: a signup request whose password differs from its confirmation fails with HTTP 401,
  detail "Password Don't Match", and the user store after the call is the store before
  it: no record is inserted.
\<close>

theorem create_user_mismatch:
  assumes "cu_password request \<noteq> cu_confirmation request"
  shows "create_user L params new_id request db =
           (Inl (HTTPException 401 ''Password Don't Match'' []), db)"
  using assms by (simp add: create_user_def)

theorem create_user_mismatch_witness:
  "cu_password signup_mismatch \<noteq> cu_confirmation signup_mismatch \<and>
   create_user toy_crypto ''s'' 2 signup_mismatch [alice] =
     (Inl (HTTPException 401 ''Password Don't Match'' []), [alice])"
proof -
  have h: "cu_password signup_mismatch \<noteq> cu_confirmation signup_mismatch"
    by (simp add: signup_mismatch_def)
  show ?thesis using h create_user_mismatch [OF h] by simp
qed

text \<open>
  What a signup with matching password and confirmation does: one record is appended to
  the store, with the requested username, the role of the request as it is, and the hash
  of the password, which verifies against the password; the record is returned with
  status 200.
\<close>

lemma create_user_matching:
  assumes "cu_password request = cu_confirmation request"
  shows "\<exists>db_user. create_user L params new_id request db = (Inr (200, db_user), db @ [db_user]) \<and>
           username db_user = cu_username request \<and> role db_user = cu_role request \<and>
           passwordHash db_user = generate_hash L params (cu_password request) \<and>
           verify_password L (passwordHash db_user) (cu_password request)"
  using assms
  by (simp add: create_user_def Let_def verify_password_def generate_hash_def
      password_context_verify_def password_context_hash_def)

section \<open>Successful login\<close>

text \<open>
  C4, as the claim states it, fails when the signing configuration is not set: the user
  exists and the password verifies, but \<open>jwt.encode\<close> fails and the handler raises instead
  of answering 200.
\<close>

theorem login_token_unset_secret:
  "query_first [alice] (form_username alice_form) = Some alice \<and>
   verify_password toy_crypto (passwordHash alice) (form_password alice_form) \<and>
   login_token toy_crypto unset_config 0 alice_form [alice] = Inl SigningError"
  by (simp add: query_first_def toy_defs verify_password_def password_context_verify_def
      login_token_def create_access_token_def jwt_encode_def)

text \<open>
  C4, amended: for a login request whose username matches a stored user and whose password
  verifies against that user's \<open>passwordHash\<close>: when \<open>SECRET_KEY\<close> and \<open>ALGORITHM\<close> are
  set and the signer accepts them, the handler returns status 200 with the body
  \<open>{access_token, token_type: "bearer"}\<close>, and the access token, decoded no later than
  its expiry, gives the claims \<open>username\<close>, \<open>id\<close> and \<open>role\<close> of the stored user; when
  \<open>SECRET_KEY\<close> or \<open>ALGORITHM\<close> is not set, or the signer refuses them, the failure of
  \<open>jwt.encode\<close> leaves the handler uncaught and there is no 200 response.
\<close>

theorem login_token_success:
  assumes "query_first db (form_username request) = Some user"
    and "verify_password L (passwordHash user) (form_password request)"
  shows "(\<forall>k a sg now'.
            SECRET_KEY C = Some k \<and> ALGORITHM C = Some a \<and>
            signer L a k (AList.update ''exp'' (JNum (now + 60 * 60)) (user_claims user)) =
              Some sg \<and>
            now' \<le> now + 60 * 60 \<longrightarrow>
            (\<exists>tok payload.
               login_token L C now request db =
                 Inr (200, \<lparr>access_token = tok, token_type = ''bearer''\<rparr>) \<and>
               jwt_decode L now' tok (SECRET_KEY C) [ALGORITHM C] = Inr payload \<and>
               map_of payload ''username'' = Some (JStr (username user)) \<and>
               map_of payload ''id'' = Some (JNum (id_col user)) \<and>
               map_of payload ''role'' = Some (JStr (role user)))) \<and>
         (SECRET_KEY C = None \<or> ALGORITHM C = None \<or>
          (\<exists>k a. SECRET_KEY C = Some k \<and> ALGORITHM C = Some a \<and>
             signer L a k (AList.update ''exp'' (JNum (now + 60 * 60)) (user_claims user)) =
               None) \<longrightarrow>
            login_token L C now request db = Inl SigningError)"
proof -
  let ?p = "AList.update ''exp'' (JNum (now + 3600)) (user_claims user)"
  have ok: "\<exists>tok payload.
      login_token L C now request db =
        Inr (200, \<lparr>access_token = tok, token_type = ''bearer''\<rparr>) \<and>
      jwt_decode L now' tok (SECRET_KEY C) [ALGORITHM C] = Inr payload \<and>
      map_of payload ''username'' = Some (JStr (username user)) \<and>
      map_of payload ''id'' = Some (JNum (id_col user)) \<and>
      map_of payload ''role'' = Some (JStr (role user))"
    if c: "SECRET_KEY C = Some k" "ALGORITHM C = Some a" and s: "signer L a k ?p = Some sg"
      and n: "now' \<le> now + 3600" for k a sg now'
  proof -
    have t: "create_access_token L C now (user_claims user) = Inr (Jws a ?p sg)"
      unfolding create_access_token_Inr using c s by simp
    have l: "login_token L C now request db =
               Inr (200, \<lparr>access_token = Jws a ?p sg, token_type = ''bearer''\<rparr>)"
      using assms t by (simp add: login_token_def)
    have e: "map_of ?p ''exp'' = Some (JNum (now + 3600))" by (simp add: update_conv')
    have d: "jwt_decode L now' (Jws a ?p sg) (SECRET_KEY C) [ALGORITHM C] = Inr ?p"
      using jwt_decode_signed [OF s e, of now'] c n by simp
    have m: "map_of ?p ''username'' = Some (JStr (username user))"
      "map_of ?p ''id'' = Some (JNum (id_col user))"
      "map_of ?p ''role'' = Some (JStr (role user))"
      by (simp_all add: map_of_update_other user_claims_def)
    from l d m show ?thesis by blast
  qed
  have bad: "login_token L C now request db = Inl SigningError"
    if "SECRET_KEY C = None \<or> ALGORITHM C = None \<or>
        (\<exists>k a. SECRET_KEY C = Some k \<and> ALGORITHM C = Some a \<and> signer L a k ?p = None)"
  proof -
    have "create_access_token L C now (user_claims user) = Inl SigningError"
      using that
      by (auto simp: create_access_token_def jwt_encode_def timedelta_minutes_def Let_def
          split: option.splits)
    then show ?thesis using assms by (simp add: login_token_def)
  qed
  from ok bad show ?thesis by simp
qed

theorem login_token_success_witness:
  "query_first [alice] (form_username alice_form) = Some alice \<and>
   verify_password toy_crypto (passwordHash alice) (form_password alice_form) \<and>
   SECRET_KEY toy_config = Some ''k'' \<and> ALGORITHM toy_config = Some ''HS256'' \<and>
   signer toy_crypto ''HS256'' ''k''
     (AList.update ''exp'' (JNum (0 + 60 * 60)) (user_claims alice)) =
     Some ''kusernameidroleexp'' \<and>
   (100::int) \<le> 0 + 60 * 60 \<and>
   (\<exists>tok payload.
      login_token toy_crypto toy_config 0 alice_form [alice] =
        Inr (200, \<lparr>access_token = tok, token_type = ''bearer''\<rparr>) \<and>
      jwt_decode toy_crypto 100 tok (SECRET_KEY toy_config) [ALGORITHM toy_config] =
        Inr payload \<and>
      map_of payload ''username'' = Some (JStr (username alice)) \<and>
      map_of payload ''id'' = Some (JNum (id_col alice)) \<and>
      map_of payload ''role'' = Some (JStr (role alice))) \<and>
   ALGORITHM no_algorithm_config = None \<and>
   login_token toy_crypto no_algorithm_config 0 alice_form [alice] = Inl SigningError"
proof -
  have k: "SECRET_KEY toy_config = Some ''k''" and a: "ALGORITHM toy_config = Some ''HS256''"
    by (simp_all add: toy_config_def)
  have s: "signer toy_crypto ''HS256'' ''k''
             (AList.update ''exp'' (JNum (0 + 60 * 60)) (user_claims alice)) =
           Some ''kusernameidroleexp''"
    by (simp add: toy_crypto_def user_claims_def)
  have h: "(100::int) \<le> 0 + 60 * 60" by simp
  have n: "ALGORITHM no_algorithm_config = None" by (simp add: no_algorithm_config_def)
  have 1: "\<exists>tok payload.
      login_token toy_crypto toy_config 0 alice_form [alice] =
        Inr (200, \<lparr>access_token = tok, token_type = ''bearer''\<rparr>) \<and>
      jwt_decode toy_crypto 100 tok (SECRET_KEY toy_config) [ALGORITHM toy_config] =
        Inr payload \<and>
      map_of payload ''username'' = Some (JStr (username alice)) \<and>
      map_of payload ''id'' = Some (JNum (id_col alice)) \<and>
      map_of payload ''role'' = Some (JStr (role alice))"
    using k a s h
      login_token_success [OF query_alice verify_alice, of toy_config 0, THEN conjunct1]
    by blast
  have 2: "login_token toy_crypto no_algorithm_config 0 alice_form [alice] = Inl SigningError"
    using n
      login_token_success [OF query_alice verify_alice, of no_algorithm_config 0,
        THEN conjunct2]
    by blast
  from query_alice verify_alice k a s h n 1 2 show ?thesis by blast
qed

section \<open>Current-user resolver\<close>





text \<open>
  C9: for a token that decodes successfully, the resolver rejects it exactly when the
  username claim is missing; when the claims contain a username, the resolver returns a
  user value with that username, in which \<open>id\<close> is \<open>None\<close> if the claims have no \<open>id\<close> and
  \<open>role\<close> is \<open>None\<close> if they have no \<open>role\<close>.
\<close>

theorem get_current_user_missing_fields:
  assumes "jwt_decode L now token (SECRET_KEY C) [ALGORITHM C] = Inr payload"
  shows "((\<exists>e. get_current_user L C now token = Inl e) \<longleftrightarrow>
            py_get payload ''username'' = JNull) \<and>
         (py_get payload ''username'' \<noteq> JNull \<longrightarrow>
            (\<exists>user. get_current_user L C now token = Inr user \<and>
               map_of user ''username'' = map_of payload ''username'' \<and>
               (map_of payload ''id'' = None \<longrightarrow> map_of user ''id'' = Some JNull) \<and>
               (map_of payload ''role'' = None \<longrightarrow> map_of user ''role'' = Some JNull)))"
  using assms
  by (auto simp: get_current_user_cases py_get_def split: option.splits)

theorem get_current_user_missing_fields_witness:
  "jwt_decode toy_crypto 100 carol_token (SECRET_KEY toy_config) [ALGORITHM toy_config] =
     Inr carol_payload \<and>
   py_get carol_payload ''username'' \<noteq> JNull \<and>
   map_of carol_payload ''id'' = None \<and> map_of carol_payload ''role'' = None \<and>
   (\<exists>user. get_current_user toy_crypto toy_config 100 carol_token = Inr user \<and>
      map_of user ''username'' = map_of carol_payload ''username'' \<and>
      map_of user ''id'' = Some JNull \<and> map_of user ''role'' = Some JNull)"
proof -
  have u: "py_get carol_payload ''username'' \<noteq> JNull"
    by (simp add: py_get_def carol_payload_def)
  have m: "map_of carol_payload ''id'' = None" "map_of carol_payload ''role'' = None"
    by (simp_all add: carol_payload_def)
  show ?thesis
    using decode_carol_token u m get_current_user_missing_fields [OF decode_carol_token]
    by blast
qed

text \<open>
  C10: \<open>get_current_user\<close> never ends at the \<open>raise\<close> of line 64, the branch
  \<open>if user is None\<close>; once decoding succeeds and the username claim is present, it ends
  at the \<open>return\<close> of line 65 with the user value.
\<close>

theorem get_current_user_line_64_unreachable:
  "fst (get_current_user_traced L C now token) \<noteq> 64 \<and>
   (jwt_decode L now token (SECRET_KEY C) [ALGORITHM C] = Inr payload \<and>
    py_get payload ''username'' \<noteq> JNull \<longrightarrow>
      get_current_user_traced L C now token =
        (65, Inr [(''username'', py_get payload ''username''),
                  (''id'', py_get payload ''id''),
                  (''role'', py_get payload ''role'')]) \<and>
      get_current_user L C now token =
        Inr [(''username'', py_get payload ''username''),
             (''id'', py_get payload ''id''),
             (''role'', py_get payload ''role'')])"
  by (auto simp: get_current_user_def get_current_user_traced_cases split: sum.splits)

theorem get_current_user_line_64_unreachable_witness:
  "jwt_decode toy_crypto 100 carol_token (SECRET_KEY toy_config) [ALGORITHM toy_config] =
     Inr carol_payload \<and>
   py_get carol_payload ''username'' \<noteq> JNull \<and>
   fst (get_current_user_traced toy_crypto toy_config 100 carol_token) \<noteq> 64 \<and>
   get_current_user_traced toy_crypto toy_config 100 carol_token =
     (65, Inr [(''username'', JStr ''carol''), (''id'', JNull), (''role'', JNull)]) \<and>
   get_current_user toy_crypto toy_config 100 carol_token =
     Inr [(''username'', JStr ''carol''), (''id'', JNull), (''role'', JNull)]"
proof -
  have u: "py_get carol_payload ''username'' \<noteq> JNull"
    "py_get carol_payload ''username'' = JStr ''carol''"
    "py_get carol_payload ''id'' = JNull" "py_get carol_payload ''role'' = JNull"
    by (simp_all add: py_get_def carol_payload_def)
  show ?thesis
    using decode_carol_token u
      get_current_user_line_64_unreachable
        [where L = toy_crypto and C = toy_config and now = 100 and token = carol_token
           and payload = carol_payload]
    by simp
qed

end
